theory Spec2Isabelle
  imports Complex_Main "HOL-Library.Word"
begin

unbundle bit_operations_syntax

section \<open>The pixel sink (rpi\_ws281x PixelStrip, an external collaborator)\<close>

text \<open>
  \<^verbatim>\<open>ws.Color(r, g, b)\<close> is kept as a constructor. The strip is a pixel buffer indexed by
  position, a brightness and the list of calls it has received, oldest first; the
  service only ever writes indices below \<open>LED_COUNT\<close>.
\<close>

datatype color = Color int int int

datatype sink_call = SetPixelColor nat color | SetBrightness int | Show

record PixelStrip =
  pixels :: "nat \<Rightarrow> color"
  brightness :: int
  sink_calls :: "sink_call list"

definition strip_setPixelColor :: "nat \<Rightarrow> color \<Rightarrow> PixelStrip \<Rightarrow> PixelStrip" where
  "strip_setPixelColor i c p =
     p\<lparr>pixels := (pixels p)(i := c), sink_calls := sink_calls p @ [SetPixelColor i c]\<rparr>"

definition strip_setBrightness :: "int \<Rightarrow> PixelStrip \<Rightarrow> PixelStrip" where
  "strip_setBrightness v p = p\<lparr>brightness := v, sink_calls := sink_calls p @ [SetBrightness v]\<rparr>"

definition strip_show :: "PixelStrip \<Rightarrow> PixelStrip" where
  "strip_show p = p\<lparr>sink_calls := sink_calls p @ [Show]\<rparr>"

section \<open>Themes (lib/led/LEDTheme.py and LEDLoops.py, taken as parameters)\<close>

text \<open>
  A theme is an opaque plugin. The service calls \<^verbatim>\<open>passApp\<close>, \<^verbatim>\<open>passArgs\<close>,
  \<^verbatim>\<open>runInit\<close> and \<^verbatim>\<open>runLoop\<close> on it and reads its \<^verbatim>\<open>id\<close>. Each call either returns
  or raises an \<^verbatim>\<open>Exception\<close>, given here by the text of its traceback. \<^verbatim>\<open>runInit\<close>
  and \<^verbatim>\<open>runLoop\<close> act on the strip they were handed; a theme's own mutable state is
  represented by the number of \<^verbatim>\<open>runLoop\<close> calls made so far, which \<^verbatim>\<open>runLoop\<close>
  receives. \<^verbatim>\<open>runLoop\<close> returns \<^verbatim>\<open>None\<close> to continue and any other value to stop.
\<close>

datatype step_result = StatNone | StatValue | StepRaises string

record LEDTheme =
  theme_id :: string
  passApp :: "string option"
  passArgs :: "string option"
  runInit :: "PixelStrip \<Rightarrow> string option \<times> PixelStrip"
  runLoop :: "nat \<Rightarrow> PixelStrip \<Rightarrow> step_result \<times> PixelStrip"

text \<open>
  Modelled from the spec: \<^verbatim>\<open>LEDThemes.null()\<close> of LEDLoops.py, which is not among the
  sources. The spec gives the distinguished null theme the id "null", an initialisation
  that does nothing and a step that continues forever.
\<close>

definition LEDThemes_null :: LEDTheme where
  "LEDThemes_null =
     \<lparr>theme_id = ''null'', passApp = None, passArgs = None,
      runInit = (\<lambda>p. (None, p)), runLoop = (\<lambda>n p. (StatNone, p))\<rparr>"

section \<open>lib/PerformanceMonitor.py\<close>

text \<open>
  Timestamps and durations are Python floats; they are taken as exact rationals here.
  Only the fields \<^verbatim>\<open>record_led_frame\<close> touches are kept. The reading of
  \<^verbatim>\<open>time.time()\<close> is the first argument.
\<close>

record PerformanceMonitor =
  led_fps :: rat
  led_frame_time :: rat
  led_frame_times :: "(rat \<times> rat) list"

definition PerformanceMonitor_init :: PerformanceMonitor where
  "PerformanceMonitor_init = \<lparr>led_fps = 0, led_frame_time = 0, led_frame_times = []\<rparr>"

definition record_led_frame :: "rat \<Rightarrow> rat \<Rightarrow> PerformanceMonitor \<Rightarrow> PerformanceMonitor" where
  "record_led_frame current_time frame_time m =
     (let appended = led_frame_times m @ [(current_time, frame_time)];
          cutoff_time = current_time - 1;
          kept = filter (\<lambda>(t, ft). t > cutoff_time) appended;
          m1 = m\<lparr>led_frame_times := kept\<rparr>
      in if length kept > 1 then
           (let time_span = fst (last kept) - fst (hd kept)
            in if time_span > 0 then
                 m1\<lparr>led_fps := of_nat (length kept) / time_span,
                    led_frame_time := sum_list (map snd kept) / of_nat (length kept)\<rparr>
               else m1)
         else m1)"

section \<open>LEDService.py\<close>

text \<open>
  What the service does to the outside is kept in a trace, oldest first: the sleeps, the
  messages handed to the error callback (the default callback prints them) and the calls
  made on themes.
\<close>

datatype event = Sleep rat | ErrorCallback string | ThemeCall string string

text \<open>
  The fields of the service object, then the two module globals that decide whether frame
  times are recorded, and the bookkeeping of the model: the number of clock readings
  taken, the number of \<^verbatim>\<open>runLoop\<close> calls made, and the trace.
\<close>

record LEDService =
  leds :: PixelStrip
  loop :: "LEDTheme option"
  breakLoopEvent :: bool
  loopChangeEvent :: bool
  isRunning :: bool
  isChangingLoop :: bool
  hasChangeTimedOut :: bool
  PERFORMANCE_MONITORING :: bool
  performance_monitor :: "PerformanceMonitor option"
  ticks :: nat
  frames :: nat
  trace :: "event list"

text \<open>
  A call returns, lets an exception escape, or is still going when the fuel of a loop is
  used up.
\<close>

datatype 'a outcome = Returned 'a | Propagated string | OutOfFuel 'a


definition LED_BRIGHTNESS :: int where
  "LED_BRIGHTNESS = 255"

definition LEDService_init :: LEDService where
  "LEDService_init =
     \<lparr>leds = \<lparr>pixels = (\<lambda>i. Color 0 0 0), brightness = LED_BRIGHTNESS, sink_calls = []\<rparr>,
      loop = Some LEDThemes_null,
      breakLoopEvent = False, loopChangeEvent = False, isRunning = True,
      isChangingLoop = False, hasChangeTimedOut = False,
      PERFORMANCE_MONITORING = True, performance_monitor = None,
      ticks = 0, frames = 0, trace = []\<rparr>"

text \<open>
  The clock is a parameter: the k-th call of \<^verbatim>\<open>time.time()\<close> returns \<open>clk k\<close>.
\<close>

definition time_time :: "(nat \<Rightarrow> rat) \<Rightarrow> LEDService \<Rightarrow> rat \<times> LEDService" where
  "time_time clk s = (clk (ticks s), s\<lparr>ticks := Suc (ticks s)\<rparr>)"

definition time_sleep :: "rat \<Rightarrow> LEDService \<Rightarrow> LEDService" where
  "time_sleep d s = s\<lparr>trace := trace s @ [Sleep d]\<rparr>"

definition errorCallback :: "string \<Rightarrow> LEDService \<Rightarrow> LEDService" where
  "errorCallback msg s = s\<lparr>trace := trace s @ [ErrorCallback msg]\<rparr>"

definition theme_call :: "string \<Rightarrow> string \<Rightarrow> LEDService \<Rightarrow> LEDService" where
  "theme_call tid meth s = s\<lparr>trace := trace s @ [ThemeCall tid meth]\<rparr>"

subsection \<open>setLoop, setBrightness, setSolid, off\<close>

text \<open>
  The argument is \<open>None\<close> for every value Python finds falsy (no argument, \<^verbatim>\<open>None\<close>).
  With no current theme the comparison of the ids raises \<^verbatim>\<open>AttributeError\<close>.
\<close>

definition setLoop :: "LEDTheme option \<Rightarrow> LEDService \<Rightarrow> LEDService outcome" where
  "setLoop arg s =
     (if isChangingLoop s \<and> \<not> hasChangeTimedOut s then Returned s
      else
        (let lp = (case arg of None \<Rightarrow> LEDThemes_null | Some t \<Rightarrow> t)
         in case loop s of
              None \<Rightarrow> Propagated ''AttributeError''
            | Some cur \<Rightarrow>
                if theme_id lp = theme_id cur \<and> \<not> isChangingLoop s then Returned s
                else
                  (let s1 = s\<lparr>isChangingLoop := True\<rparr>;
                       s2 = s1\<lparr>breakLoopEvent := True\<rparr>;
                       s3 = s2\<lparr>loopChangeEvent := True\<rparr>;
                       s4 = time_sleep (1 / 20) s3;
                       s5 = s4\<lparr>loop := Some lp\<rparr>;
                       s6 = (if hasChangeTimedOut s5 then s5\<lparr>hasChangeTimedOut := False\<rparr> else s5)
                   in Returned (s6\<lparr>isChangingLoop := False\<rparr>))))"

definition setBrightness :: "int \<Rightarrow> LEDService \<Rightarrow> LEDService" where
  "setBrightness v s = s\<lparr>leds := strip_show (strip_setBrightness (v AND 255) (leds s))\<rparr>"




subsection \<open>The render worker, \_ledLoopTarget\<close>

text \<open>
  The module-level \<^verbatim>\<open>record_led_frame\<close>: the stub does nothing when the import failed, the
  real one does nothing while no global monitor exists, and otherwise the monitor reads
  the clock itself.
\<close>

definition module_record_led_frame :: "(nat \<Rightarrow> rat) \<Rightarrow> rat \<Rightarrow> LEDService \<Rightarrow> LEDService" where
  "module_record_led_frame clk frame_time s =
     (if PERFORMANCE_MONITORING s then
        (case performance_monitor s of
           None \<Rightarrow> s
         | Some m \<Rightarrow>
             (let (current_time, s1) = time_time clk s
              in s1\<lparr>performance_monitor := Some (record_led_frame current_time frame_time m)\<rparr>))
      else s)"

text \<open>
  The body of the first \<^verbatim>\<open>try\<close>: \<^verbatim>\<open>passApp\<close>, \<^verbatim>\<open>passArgs\<close>, \<^verbatim>\<open>runInit\<close>, stopping
  at the first that raises. The first component is the traceback of the exception, if any.
\<close>

definition try_init :: "LEDTheme \<Rightarrow> LEDService \<Rightarrow> string option \<times> LEDService" where
  "try_init T s =
     (let s1 = theme_call (theme_id T) ''passApp'' s
      in case passApp T of
           Some tb \<Rightarrow> (Some tb, s1)
         | None \<Rightarrow>
             (let s2 = theme_call (theme_id T) ''passArgs'' s1
              in case passArgs T of
                   Some tb \<Rightarrow> (Some tb, s2)
                 | None \<Rightarrow>
                     (let s3 = theme_call (theme_id T) ''runInit'' s2;
                          (r, p) = runInit T (leds s3)
                      in (r, s3\<lparr>leds := p\<rparr>))))"

text \<open>
  \<^verbatim>\<open>self.loop.runLoop()\<close> inside the second \<^verbatim>\<open>try\<close>; with no current theme the attribute
  access raises there.
\<close>

definition call_runLoop :: "LEDService \<Rightarrow> step_result \<times> LEDService" where
  "call_runLoop s =
     (case loop s of
        None \<Rightarrow> (StepRaises ''AttributeError'', s)
      | Some T \<Rightarrow>
          (let s1 = theme_call (theme_id T) ''runLoop'' s;
               (r, p) = runLoop T (frames s1) (leds s1)
           in (r, s1\<lparr>leds := p, frames := Suc (frames s1)\<rparr>)))"

definition frame_time_target :: rat where
  "frame_time_target = 1 / 60"

text \<open>
  One pass through the body of the inner \<^verbatim>\<open>while\<close>. The local \<^verbatim>\<open>last_frame_time\<close>
  travels with the state; the first component says whether the pass ended in \<^verbatim>\<open>break\<close>.
\<close>

definition frame :: "(nat \<Rightarrow> rat) \<Rightarrow> LEDService \<times> rat \<Rightarrow> bool \<times> LEDService \<times> rat" where
  "frame clk x =
     (case x of (s, last_frame_time) \<Rightarrow>
        (let (frame_start, s1) = time_time clk s
         in case call_runLoop s1 of
              (StepRaises tb, s2) \<Rightarrow>
                (True, (errorCallback tb s2)\<lparr>breakLoopEvent := True\<rparr>, last_frame_time)
            | (StatValue, s2) \<Rightarrow> (True, s2\<lparr>breakLoopEvent := True\<rparr>, last_frame_time)
            | (StatNone, s2) \<Rightarrow>
                (let (t2, s3) = time_time clk s2;
                     frame_elapsed = t2 - frame_start;
                     s4 = module_record_led_frame clk frame_elapsed s3;
                     sleep_time = max 0 (frame_time_target - frame_elapsed);
                     s5 = (if sleep_time > 0 then time_sleep sleep_time s4 else s4);
                     (t3, s6) = time_time clk s5
                 in if t3 - last_frame_time > 16 / 1000 then
                      (let s7 = time_sleep (1 / 1000) s6;
                           (t4, s8) = time_time clk s7
                       in (False, s8, t4))
                    else (False, s6, last_frame_time))))"

definition frame_loop_cond :: "LEDService \<Rightarrow> bool" where
  "frame_loop_cond s \<longleftrightarrow> \<not> breakLoopEvent s \<and> isRunning s \<and> \<not> loopChangeEvent s"

text \<open>The inner \<^verbatim>\<open>while\<close>, with fuel: it runs for as long as the theme continues.\<close>

fun run_frames :: "nat \<Rightarrow> (nat \<Rightarrow> rat) \<Rightarrow> LEDService \<times> rat \<Rightarrow> (LEDService \<times> rat) outcome" where
  "run_frames 0 clk x = (if frame_loop_cond (fst x) then OutOfFuel x else Returned x)"
| "run_frames (Suc n) clk x =
     (if frame_loop_cond (fst x) then
        (case frame clk x of
           (True, y) \<Rightarrow> Returned y
         | (False, y) \<Rightarrow> run_frames n clk y)
      else Returned x)"

definition clear_events :: "(LEDService \<times> rat) outcome \<Rightarrow> (LEDService \<times> rat) outcome" where
  "clear_events r =
     (case r of
        Returned (s, l) \<Rightarrow> Returned (s\<lparr>breakLoopEvent := False, loopChangeEvent := False\<rparr>, l)
      | Propagated e \<Rightarrow> Propagated e
      | OutOfFuel y \<Rightarrow> OutOfFuel y)"

text \<open>
  One pass through the body of the outer \<^verbatim>\<open>while self._isRunning\<close>; \<open>n\<close> is the fuel of
  the inner loop.
\<close>

definition worker_iteration ::
    "nat \<Rightarrow> (nat \<Rightarrow> rat) \<Rightarrow> LEDService \<times> rat \<Rightarrow> (LEDService \<times> rat) outcome" where
  "worker_iteration n clk x =
     (case x of (s, last_frame_time) \<Rightarrow>
        (case loop s of
           None \<Rightarrow> Returned (time_sleep (1 / 100) s, last_frame_time)
         | Some T \<Rightarrow>
             if theme_id T = ''null'' then Returned (time_sleep (1 / 100) s, last_frame_time)
             else if isChangingLoop s then Returned (time_sleep (1 / 100) s, last_frame_time)
             else
               (case try_init T s of
                  (Some tb, s1) \<Rightarrow>
                    (let s2 = errorCallback (''Failed to initialize loop '' @ theme_id T @ '': '' @ tb) s1;
                         s3 = time_sleep (1 / 10) s2
                     in case setLoop (Some LEDThemes_null) s3 of
                          Returned s4 \<Rightarrow> Returned (s4, last_frame_time)
                        | Propagated e \<Rightarrow> Propagated e
                        | OutOfFuel s4 \<Rightarrow> OutOfFuel (s4, last_frame_time))
                | (None, s1) \<Rightarrow> clear_events (run_frames n clk (s1, last_frame_time)))))"

text \<open>
  The outer loop from line 88 on (the scheduling hints before it touch nothing of the
  service). \<open>Returned\<close> is the thread function returning, \<open>OutOfFuel\<close> the worker still
  running after \<open>n\<close> passes.
\<close>

fun worker_loop :: "nat \<Rightarrow> (nat \<Rightarrow> rat) \<Rightarrow> LEDService \<times> rat \<Rightarrow> (LEDService \<times> rat) outcome" where
  "worker_loop 0 clk x = (if isRunning (fst x) then OutOfFuel x else Returned x)"
| "worker_loop (Suc n) clk x =
     (if isRunning (fst x) then
        (case worker_iteration n clk x of
           Returned y \<Rightarrow> worker_loop n clk y
         | Propagated e \<Rightarrow> Propagated e
         | OutOfFuel y \<Rightarrow> OutOfFuel y)
      else Returned x)"

definition ledLoopTarget :: "nat \<Rightarrow> (nat \<Rightarrow> rat) \<Rightarrow> LEDService \<Rightarrow> (LEDService \<times> rat) outcome" where
  "ledLoopTarget n clk s =
     (let (last_frame_time, s1) = time_time clk s in worker_loop n clk (s1, last_frame_time))"

subsection \<open>A sample theme and clock\<close>

text \<open>
  A theme named "rainbow" whose every call returns and whose step paints pixel 0, one
  whose \<^verbatim>\<open>runInit\<close> raises, one whose \<^verbatim>\<open>runLoop\<close> raises; and a clock that advances
  half a second per reading.
\<close>

definition rainbow :: LEDTheme where
  "rainbow =
     \<lparr>theme_id = ''rainbow'', passApp = None, passArgs = None,
      runInit = (\<lambda>p. (None, p)),
      runLoop = (\<lambda>n p. (StatNone, strip_show (strip_setPixelColor 0 (Color 255 0 0) p)))\<rparr>"

definition bad_init :: LEDTheme where
  "bad_init = rainbow\<lparr>theme_id := ''bad_init'', runInit := (\<lambda>p. (Some ''ValueError'', p))\<rparr>"

definition bad_step :: LEDTheme where
  "bad_step = rainbow\<lparr>theme_id := ''bad_step'', runLoop := (\<lambda>n p. (StepRaises ''ValueError'', p))\<rparr>"

definition half_second_clock :: "nat \<Rightarrow> rat" where
  "half_second_clock k = of_nat k / 2"

text \<open>
  A monitor that has recorded two frames half a second apart, and the same monitor after
  a third frame a second and a half later.
\<close>

definition two_frames :: PerformanceMonitor where
  "two_frames = record_led_frame (1 / 2) (1 / 4) (record_led_frame 0 (1 / 4) PerformanceMonitor_init)"

definition late_frame :: PerformanceMonitor where
  "late_frame = record_led_frame 2 (1 / 4) two_frames"

subsection \<open>Reading the trace and following an episode\<close>

text \<open>
  The sleeps and the error reports of a trace, in order; the sleeps one pass of the frame
  loop adds; and the state after \<open>k\<close> passes of the frame loop none of which ended in
  \<^verbatim>\<open>break\<close> (\<open>None\<close> when the loop does not get that far).
\<close>

definition sleeps_of :: "event list \<Rightarrow> rat list" where
  "sleeps_of tr = concat (map (\<lambda>e. case e of Sleep d \<Rightarrow> [d] | _ \<Rightarrow> []) tr)"

definition error_reports :: "event list \<Rightarrow> string list" where
  "error_reports tr = concat (map (\<lambda>e. case e of ErrorCallback m \<Rightarrow> [m] | _ \<Rightarrow> []) tr)"

definition frame_sleeps :: "(nat \<Rightarrow> rat) \<Rightarrow> LEDService \<times> rat \<Rightarrow> rat list" where
  "frame_sleeps clk x = sleeps_of (drop (length (trace (fst x))) (trace (fst (snd (frame clk x)))))"

fun after_frames :: "nat \<Rightarrow> (nat \<Rightarrow> rat) \<Rightarrow> LEDService \<times> rat \<Rightarrow> (LEDService \<times> rat) option" where
  "after_frames 0 clk x = Some x"
| "after_frames (Suc k) clk x =
     (if frame_loop_cond (fst x) then
        (case frame clk x of (True, y) \<Rightarrow> None | (False, y) \<Rightarrow> after_frames k clk y)
      else None)"

section \<open>Switching themes\<close>



text \<open>
  C3. While a switch is in progress and has not timed out, \<^verbatim>\<open>setLoop\<close> returns at once
  for every argument and leaves the whole service as it was: the current theme, both
  events, the switching flags, and no sleep is made.
\<close>

theorem setLoop_ignored_during_switch:
  "isChangingLoop s \<Longrightarrow> \<not> hasChangeTimedOut s \<Longrightarrow> setLoop arg s = Returned s"
  by (simp add: setLoop_def)

theorem setLoop_ignored_during_switch_witness:
  "isChangingLoop (LEDService_init\<lparr>isChangingLoop := True\<rparr>)
   \<and> \<not> hasChangeTimedOut (LEDService_init\<lparr>isChangingLoop := True\<rparr>)
   \<and> setLoop (Some rainbow) (LEDService_init\<lparr>isChangingLoop := True\<rparr>)
       = Returned (LEDService_init\<lparr>isChangingLoop := True\<rparr>)"
  using setLoop_ignored_during_switch [of "LEDService_init\<lparr>isChangingLoop := True\<rparr>" "Some rainbow"]
  by (simp add: LEDService_init_def)

text \<open>
  C4. With no switch in progress, \<^verbatim>\<open>setLoop\<close> of a theme whose id is the current theme's
  id returns the service unchanged: nothing is signalled, nothing sleeps, the theme is not
  installed again. Hence after any \<^verbatim>\<open>setLoop\<close> of a theme has returned, a second
  \<^verbatim>\<open>setLoop\<close> of a theme with that id changes nothing.
\<close>

theorem setLoop_same_id_noop:
  "(loop s = Some cur \<and> \<not> isChangingLoop s \<and> theme_id T = theme_id cur
      \<longrightarrow> setLoop (Some T) s = Returned s)
   \<and> (setLoop (Some T) s = Returned s1 \<and> theme_id T2 = theme_id T
      \<longrightarrow> setLoop (Some T2) s1 = Returned s1)"
  by (auto simp: setLoop_def time_sleep_def Let_def split: if_splits option.splits)

theorem setLoop_same_id_noop_witness:
  "loop (LEDService_init\<lparr>loop := Some rainbow\<rparr>) = Some rainbow
   \<and> \<not> isChangingLoop (LEDService_init\<lparr>loop := Some rainbow\<rparr>)
   \<and> setLoop (Some rainbow) (LEDService_init\<lparr>loop := Some rainbow\<rparr>)
       = Returned (LEDService_init\<lparr>loop := Some rainbow\<rparr>)
   \<and> setLoop (Some rainbow) LEDService_init
       = Returned (LEDService_init\<lparr>loop := Some rainbow, breakLoopEvent := True,
                     loopChangeEvent := True, trace := [Sleep (1 / 20)]\<rparr>)
   \<and> setLoop (Some rainbow) (LEDService_init\<lparr>loop := Some rainbow, breakLoopEvent := True,
                     loopChangeEvent := True, trace := [Sleep (1 / 20)]\<rparr>)
       = Returned (LEDService_init\<lparr>loop := Some rainbow, breakLoopEvent := True,
                     loopChangeEvent := True, trace := [Sleep (1 / 20)]\<rparr>)"
proof -
  have a: "setLoop (Some rainbow) LEDService_init
       = Returned (LEDService_init\<lparr>loop := Some rainbow, breakLoopEvent := True,
                     loopChangeEvent := True, trace := [Sleep (1 / 20)]\<rparr>)"
    by (simp add: setLoop_def LEDService_init_def time_sleep_def rainbow_def LEDThemes_null_def)
  show ?thesis
    using a
      setLoop_same_id_noop [of "LEDService_init\<lparr>loop := Some rainbow\<rparr>" rainbow rainbow
        "LEDService_init\<lparr>loop := Some rainbow\<rparr>" rainbow]
      setLoop_same_id_noop [of LEDService_init LEDThemes_null rainbow
        "LEDService_init\<lparr>loop := Some rainbow, breakLoopEvent := True,
                     loopChangeEvent := True, trace := [Sleep (1 / 20)]\<rparr>" rainbow]
    by (simp add: LEDService_init_def)
qed

text \<open>
  C10. A \<^verbatim>\<open>setLoop\<close> with no theme (no argument, \<^verbatim>\<open>None\<close>, a falsy value) that is not
  ignored by the guard returns whenever a current theme exists, and then the current theme
  has the id "null": it is the registry's null theme, unless the call changed nothing
  because the current theme already had that id. No \<^verbatim>\<open>setLoop\<close> whatever turns a
  current theme into none.
\<close>

theorem setLoop_falsy_installs_null:
  "(\<not> (isChangingLoop s \<and> \<not> hasChangeTimedOut s) \<longrightarrow>
      (loop s \<noteq> None \<longrightarrow> (\<exists>s'. setLoop None s = Returned s')) \<and>
      (\<forall>s'. setLoop None s = Returned s' \<longrightarrow>
         (\<exists>t. loop s' = Some t \<and> theme_id t = ''null'') \<and>
         (loop s' = Some LEDThemes_null \<or> s' = s)))
   \<and> (\<forall>arg s'. setLoop arg s = Returned s' \<longrightarrow> loop s \<noteq> None \<longrightarrow> loop s' \<noteq> None)"
  by (auto simp: setLoop_def time_sleep_def Let_def LEDThemes_null_def
      split: if_splits option.splits)

theorem setLoop_falsy_installs_null_witness:
  "\<not> (isChangingLoop (LEDService_init\<lparr>loop := Some rainbow\<rparr>)
        \<and> \<not> hasChangeTimedOut (LEDService_init\<lparr>loop := Some rainbow\<rparr>))
   \<and> setLoop None (LEDService_init\<lparr>loop := Some rainbow\<rparr>)
       = Returned (LEDService_init\<lparr>breakLoopEvent := True, loopChangeEvent := True,
                     trace := [Sleep (1 / 20)]\<rparr>)
   \<and> loop (LEDService_init\<lparr>breakLoopEvent := True, loopChangeEvent := True,
                     trace := [Sleep (1 / 20)]\<rparr>) = Some LEDThemes_null
   \<and> theme_id LEDThemes_null = ''null''"
proof -
  let ?s = "LEDService_init\<lparr>loop := Some rainbow\<rparr>"
  let ?s' = "LEDService_init\<lparr>breakLoopEvent := True, loopChangeEvent := True,
                     trace := [Sleep (1 / 20)]\<rparr>"
  have a: "setLoop None ?s = Returned ?s'"
    by (simp add: setLoop_def LEDService_init_def time_sleep_def rainbow_def LEDThemes_null_def)
  have b: "\<not> (isChangingLoop ?s \<and> \<not> hasChangeTimedOut ?s)"
    by (simp add: LEDService_init_def)
  have c: "?s' \<noteq> ?s"
    by (simp add: LEDService_init_def)
  from setLoop_falsy_installs_null [of ?s] a b c
  have d: "loop ?s' = Some LEDThemes_null"
    by blast
  from a b d show ?thesis
    by (simp add: LEDThemes_null_def)
qed

section \<open>Brightness and solid colours\<close>

lemma and_255: "(v::int) AND 255 = v mod 256"
proof -
  have "v AND 255 = v AND mask 8" by (simp add: mask_eq_exp_minus_1)
  also have "\<dots> = take_bit 8 v" by (simp add: take_bit_eq_mask)
  also have "\<dots> = v mod 256" by (simp add: take_bit_eq_mod)
  finally show ?thesis .
qed

text \<open>
  C9, as the code has it. \<^verbatim>\<open>setBrightness v\<close> hands the strip the low eight bits of
  \<open>v\<close>, that is \<open>v mod 256\<close>, and then flushes, whatever the theme state. The value set
  lies in 0..255 and is \<open>v\<close> itself when \<open>v\<close> lies there; outside that range it wraps
  around and is not clamped.
\<close>

theorem setBrightness_masks_low_byte:
  "setBrightness v s =
     s\<lparr>leds := (leds s)\<lparr>brightness := v mod 256,
                        sink_calls := sink_calls (leds s) @ [SetBrightness (v mod 256), Show]\<rparr>\<rparr>
   \<and> 0 \<le> brightness (leds (setBrightness v s)) \<and> brightness (leds (setBrightness v s)) \<le> 255
   \<and> (0 \<le> v \<and> v \<le> 255 \<longrightarrow> brightness (leds (setBrightness v s)) = v)"
  by (simp add: setBrightness_def strip_show_def strip_setBrightness_def and_255)

theorem setBrightness_masks_low_byte_witness:
  "0 \<le> (128::int) \<and> (128::int) \<le> 255
   \<and> brightness (leds (setBrightness 128 LEDService_init)) = 128"
  using setBrightness_masks_low_byte [of 128 LEDService_init] by simp

text \<open>
  As the specification words it the property fails: 300 is above 255 and the brightness set is 44, and -1 is
  below 0 and the brightness set is 255.
\<close>

theorem setBrightness_wraps_counterexample:
  "brightness (leds (setBrightness 300 LEDService_init)) = 44
   \<and> brightness (leds (setBrightness (- 1) LEDService_init)) = 255
   \<and> max 0 (min 255 (300::int)) = 255 \<and> max 0 (min 255 (- 1::int)) = 0"
  by (simp add: setBrightness_def strip_show_def strip_setBrightness_def and_255)







section \<open>The frame-time window\<close>

text \<open>
  C8, as the code has it. After \<^verbatim>\<open>record_led_frame\<close> the window holds exactly the samples,
  the new one included, whose timestamp is later than one second before now, and the new
  sample is its last. If the window then holds at least two samples and the newest
  timestamp is later than the oldest, \<^verbatim>\<open>led_fps\<close> is the number of samples divided by
  that span and \<^verbatim>\<open>led_frame_time\<close> is the mean of the durations. Otherwise both metrics
  keep the values they had before the call.
\<close>

theorem record_led_frame_window_metrics:
  "(let m' = record_led_frame now d m; w = led_frame_times m' in
     w = filter (\<lambda>(t, ft). now - 1 < t) (led_frame_times m @ [(now, d)])
     \<and> (\<forall>(t, ft) \<in> set w. now - 1 < t)
     \<and> last w = (now, d)
     \<and> (2 \<le> length w \<and> fst (hd w) < fst (last w) \<longrightarrow>
          led_fps m' = of_nat (length w) / (fst (last w) - fst (hd w))
          \<and> led_frame_time m' = sum_list (map snd w) / of_nat (length w))
     \<and> (\<not> (2 \<le> length w \<and> fst (hd w) < fst (last w)) \<longrightarrow>
          led_fps m' = led_fps m \<and> led_frame_time m' = led_frame_time m))"
  by (auto simp: record_led_frame_def Let_def Suc_le_eq)

theorem record_led_frame_window_metrics_witness:
  "led_frame_times two_frames = [(0, 1 / 4), (1 / 2, 1 / 4)]
   \<and> led_fps two_frames = 4 \<and> led_frame_time two_frames = 1 / 4"
  using record_led_frame_window_metrics
    [of "1 / 2" "1 / 4" "record_led_frame 0 (1 / 4) PerformanceMonitor_init"]
  by (simp add: two_frames_def record_led_frame_def PerformanceMonitor_init_def Let_def)

text \<open>
  As the specification words it the property fails: after two frames half a second apart and a third one a
  second and a half later, the window holds one sample and the metrics still read
  4 frames per second and a quarter of a second.
\<close>

theorem record_led_frame_stale_metrics_counterexample:
  "length (led_frame_times late_frame) < 2
   \<and> led_fps late_frame = 4 \<and> led_frame_time late_frame = 1 / 4"
  by (simp add: late_frame_def two_frames_def record_led_frame_def PerformanceMonitor_init_def
      Let_def)

section \<open>The render worker\<close>

lemma try_init_fields:
  "try_init T s = (r, s1) \<Longrightarrow>
     loop s1 = loop s \<and> isRunning s1 = isRunning s \<and> isChangingLoop s1 = isChangingLoop s
     \<and> hasChangeTimedOut s1 = hasChangeTimedOut s
     \<and> error_reports (trace s1) = error_reports (trace s)"
  by (auto simp: try_init_def theme_call_def Let_def error_reports_def
      split: option.splits prod.splits)

lemma after_frames_run:
  "after_frames k clk x = Some y \<Longrightarrow> run_frames (k + n) clk x = run_frames n clk y"
proof (induction k arbitrary: x)
  case 0
  then show ?case by simp
next
  case (Suc k)
  then show ?case
    by (auto split: if_splits prod.splits bool.splits)
qed

lemma frame_fault:
  assumes "loop s = Some T" and "runLoop T (frames s) (leds s) = (StepRaises tb, p)"
  shows "frame clk (s, l) =
     (True, s\<lparr>leds := p, breakLoopEvent := True, ticks := Suc (ticks s), frames := Suc (frames s),
              trace := trace s @ [ThemeCall (theme_id T) ''runLoop'', ErrorCallback tb]\<rparr>, l)"
  using assms
  by (simp add: frame_def time_time_def call_runLoop_def theme_call_def errorCallback_def)

lemma frame_stop:
  assumes "loop s = Some T" and "runLoop T (frames s) (leds s) = (StatValue, p)"
  shows "frame clk (s, l) =
     (True, s\<lparr>leds := p, breakLoopEvent := True, ticks := Suc (ticks s), frames := Suc (frames s),
              trace := trace s @ [ThemeCall (theme_id T) ''runLoop'']\<rparr>, l)"
  using assms
  by (simp add: frame_def time_time_def call_runLoop_def theme_call_def)

lemma frame_continue:
  assumes "loop s = Some T" and "runLoop T (frames s) (leds s) = (StatNone, p)"
  shows "\<not> fst (frame clk (s, l))
    \<and> trace (fst (snd (frame clk (s, l)))) =
        trace s @ ThemeCall (theme_id T) ''runLoop'' #
          map Sleep
           ((if clk (Suc (ticks s)) - clk (ticks s) < frame_time_target
             then [frame_time_target - (clk (Suc (ticks s)) - clk (ticks s))] else []) @
            (if 16 / 1000 < clk (ticks s + 2 +
                    (if PERFORMANCE_MONITORING s \<and> performance_monitor s \<noteq> None then 1 else 0)) - l
             then [1 / 1000] else []))"
  using assms
  by (auto simp: frame_def time_time_def call_runLoop_def theme_call_def time_sleep_def
      module_record_led_frame_def Let_def max_def split: option.splits prod.splits)

lemma frame_isRunning: "frame clk x = (b, y) \<Longrightarrow> isRunning (fst y) = isRunning (fst x)"
  by (cases x)
    (auto simp: frame_def time_time_def call_runLoop_def theme_call_def time_sleep_def
      errorCallback_def module_record_led_frame_def Let_def
      split: option.splits prod.splits step_result.splits if_splits)

lemma run_frames_isRunning:
  "run_frames n clk x = Returned y \<Longrightarrow> isRunning (fst y) = isRunning (fst x)"
proof (induction n arbitrary: x)
  case 0
  then show ?case by (auto split: if_splits)
next
  case (Suc n)
  show ?case
  proof (cases "frame_loop_cond (fst x)")
    case False
    with Suc.prems show ?thesis by simp
  next
    case True
    obtain b z where f: "frame clk x = (b, z)" by (cases "frame clk x")
    note fr = frame_isRunning [OF f]
    show ?thesis
    proof (cases b)
      case True
      with Suc.prems \<open>frame_loop_cond (fst x)\<close> f fr show ?thesis by simp
    next
      case False
      with Suc.prems \<open>frame_loop_cond (fst x)\<close> f have "run_frames n clk z = Returned y" by simp
      from Suc.IH [OF this] fr show ?thesis by simp
    qed
  qed
qed

lemma run_frames_not_Propagated: "run_frames n clk x \<noteq> Propagated e"
  by (induction n arbitrary: x) (auto split: prod.splits bool.splits)

lemma setLoop_isRunning: "setLoop arg s = Returned s' \<Longrightarrow> isRunning s' = isRunning s"
  by (auto simp: setLoop_def time_sleep_def Let_def split: if_splits option.splits)

text \<open>No pass through the worker's loop lets an exception escape.\<close>

lemma worker_iteration_not_Propagated: "worker_iteration n clk x \<noteq> Propagated e"
proof (cases x)
  case (Pair s l)
  show ?thesis
  proof (cases "loop s")
    case None
    with Pair show ?thesis by (simp add: worker_iteration_def)
  next
    case (Some T)
    obtain r s1 where ti: "try_init T s = (r, s1)" by (cases "try_init T s")
    note f = try_init_fields [OF ti]
    show ?thesis
    proof (cases r)
      case None
      with Pair Some ti show ?thesis
        using run_frames_not_Propagated [of n clk "(s1, l)"]
        by (auto simp: worker_iteration_def clear_events_def split: outcome.splits)
    next
      case (Some tb)
      with Pair \<open>loop s = Some T\<close> ti f show ?thesis
        by (auto simp: worker_iteration_def setLoop_def errorCallback_def time_sleep_def Let_def
            split: outcome.splits if_splits)
    qed
  qed
qed

text \<open>No pass through the worker's loop changes \<^verbatim>\<open>_isRunning\<close>.\<close>

lemma worker_iteration_isRunning:
  "worker_iteration n clk x = Returned y \<Longrightarrow> isRunning (fst y) = isRunning (fst x)"
proof (cases x)
  case (Pair s l)
  assume r: "worker_iteration n clk x = Returned y"
  show ?thesis
  proof (cases "loop s")
    case None
    with Pair r show ?thesis by (auto simp: worker_iteration_def time_sleep_def)
  next
    case (Some T)
    obtain q s1 where ti: "try_init T s = (q, s1)" by (cases "try_init T s")
    note f = try_init_fields [OF ti]
    show ?thesis
    proof (cases "theme_id T = ''null'' \<or> isChangingLoop s")
      case True
      with Pair Some r show ?thesis
        by (auto simp: worker_iteration_def time_sleep_def split: if_splits)
    next
      case False
      show ?thesis
      proof (cases q)
        case None
        with Pair Some ti False r obtain z where
          z: "run_frames n clk (s1, l) = Returned z" and
          y: "y = (fst z\<lparr>breakLoopEvent := False, loopChangeEvent := False\<rparr>, snd z)"
          by (auto simp: worker_iteration_def clear_events_def split: outcome.splits)
        from run_frames_isRunning [OF z] f y Pair show ?thesis by simp
      next
        case (Some tb)
        with Pair \<open>loop s = Some T\<close> ti False r obtain s4 where
          s4: "setLoop (Some LEDThemes_null)
                 (time_sleep (1 / 10)
                   (errorCallback (''Failed to initialize loop '' @ theme_id T @ '': '' @ tb) s1))
               = Returned s4" and y: "y = (s4, l)"
          by (auto simp: worker_iteration_def Let_def split: outcome.splits)
        from setLoop_isRunning [OF s4] f y Pair show ?thesis
          by (simp add: time_sleep_def errorCallback_def)
      qed
    qed
  qed
qed

text \<open>
  A worker whose \<^verbatim>\<open>_isRunning\<close> holds is still running after any number of passes: its
  loop neither returns nor lets an exception escape.
\<close>

lemma worker_loop_keeps_running:
  "isRunning (fst x) \<Longrightarrow> \<exists>y. worker_loop m clk x = OutOfFuel y"
proof (induction m arbitrary: x)
  case 0
  then show ?case by simp
next
  case (Suc m)
  show ?case
  proof (cases "worker_iteration m clk x")
    case (Returned y)
    from worker_iteration_isRunning [OF Returned] Suc.prems have "isRunning (fst y)" by simp
    from Suc.IH [OF this] Returned Suc.prems show ?thesis by simp
  next
    case (Propagated e)
    with worker_iteration_not_Propagated show ?thesis by blast
  next
    case (OutOfFuel y)
    with Suc.prems show ?thesis by simp
  qed
qed

text \<open>
  C6. When the worker finds no current theme or one with the id "null", the pass through
  its loop does one thing: it sleeps 10 ms. No theme method is called, the pixel sink
  receives nothing, and the worker goes back to the head of its loop. So for as long as
  the null theme stays current, \<open>n\<close> passes of the worker leave the service as it was
  but for \<open>n\<close> sleeps of 10 ms, and the worker is still running.
\<close>

theorem idle_worker_touches_nothing:
  "loop s = None \<or> (\<exists>T. loop s = Some T \<and> theme_id T = ''null'') \<Longrightarrow>
     worker_iteration n clk (s, l) = Returned (s\<lparr>trace := trace s @ [Sleep (1 / 100)]\<rparr>, l)
     \<and> (isRunning s \<longrightarrow>
          worker_loop n clk (s, l) =
          OutOfFuel (s\<lparr>trace := trace s @ replicate n (Sleep (1 / 100))\<rparr>, l))"
proof (induction n arbitrary: s)
  case 0
  then show ?case by (auto simp: worker_iteration_def time_sleep_def)
next
  case (Suc n)
  let ?s1 = "s\<lparr>trace := trace s @ [Sleep (1 / 100)]\<rparr>"
  have it: "\<And>k. worker_iteration k clk (s, l) = Returned (?s1, l)"
    using Suc.prems by (auto simp: worker_iteration_def time_sleep_def)
  have idle1: "loop ?s1 = None \<or> (\<exists>T. loop ?s1 = Some T \<and> theme_id T = ''null'')"
    using Suc.prems by simp
  have "isRunning s \<Longrightarrow> worker_loop (Suc n) clk (s, l)
      = OutOfFuel (s\<lparr>trace := trace s @ replicate (Suc n) (Sleep (1 / 100))\<rparr>, l)"
    using Suc.IH [OF idle1] it by (simp add: replicate_app_Cons_same)
  with it show ?case by blast
qed

theorem idle_worker_touches_nothing_witness:
  "loop LEDService_init = Some LEDThemes_null \<and> theme_id LEDThemes_null = ''null''
   \<and> worker_iteration 2 half_second_clock (LEDService_init, 0)
       = Returned (LEDService_init\<lparr>trace := [Sleep (1 / 100)]\<rparr>, 0)
   \<and> worker_loop 2 half_second_clock (LEDService_init, 0)
       = OutOfFuel (LEDService_init\<lparr>trace := [Sleep (1 / 100), Sleep (1 / 100)]\<rparr>, 0)"
proof -
  have h: "loop LEDService_init = None
      \<or> (\<exists>T. loop LEDService_init = Some T \<and> theme_id T = ''null'')"
    by (simp add: LEDService_init_def LEDThemes_null_def)
  have r: "isRunning LEDService_init"
    by (simp add: LEDService_init_def)
  have t: "trace LEDService_init = []"
    by (simp add: LEDService_init_def)
  have n: "replicate 2 (Sleep (1 / 100)) = [Sleep (1 / 100), Sleep (1 / 100)]"
    by (simp add: numeral_2_eq_2)
  have i: "loop LEDService_init = Some LEDThemes_null \<and> theme_id LEDThemes_null = ''null''"
    by (simp add: LEDService_init_def LEDThemes_null_def)
  from idle_worker_touches_nothing [OF h, of 2 half_second_clock 0] i r
  show ?thesis by (simp add: t n)
qed

text \<open>
  C2. When the \<^verbatim>\<open>try\<close> around \<^verbatim>\<open>passApp\<close>, \<^verbatim>\<open>passArgs\<close> and \<^verbatim>\<open>runInit\<close> of the current
  theme raises, the pass through the worker's loop returns normally, having handed the
  error callback one message naming the theme, slept 100 ms, and then called
  \<^verbatim>\<open>setLoop\<close> with the null theme, which sleeps its 50 ms and makes the null theme
  current. The trace gains exactly one error report. The worker is still running
  afterwards: its loop goes on from the new state, and after any number of further passes
  it has neither returned nor let an exception escape.
\<close>

theorem init_fault_falls_back_to_null:
  assumes "loop s = Some T" and "theme_id T \<noteq> ''null''" and "\<not> isChangingLoop s"
    and "try_init T s = (Some tb, s1)"
  shows "(let msg = ''Failed to initialize loop '' @ theme_id T @ '': '' @ tb;
              s' = s1\<lparr>trace := trace s1 @ [ErrorCallback msg, Sleep (1 / 10), Sleep (1 / 20)],
                      loop := Some LEDThemes_null,
                      breakLoopEvent := True, loopChangeEvent := True,
                      hasChangeTimedOut := False\<rparr>
          in worker_iteration n clk (s, l) = Returned (s', l)
             \<and> error_reports (trace s') = error_reports (trace s) @ [msg]
             \<and> isRunning s' = isRunning s
             \<and> (isRunning s \<longrightarrow> worker_loop (Suc n) clk (s, l) = worker_loop n clk (s', l))
             \<and> (isRunning s \<longrightarrow>
                  (\<exists>y. worker_loop (Suc n) clk (s, l) = OutOfFuel y)
                  \<and> (\<forall>m. \<exists>y. worker_loop m clk (s', l) = OutOfFuel y)))"
proof -
  note f = try_init_fields [OF assms(4)]
  let ?msg = "''Failed to initialize loop '' @ theme_id T @ '': '' @ tb"
  let ?s' = "s1\<lparr>trace := trace s1 @ [ErrorCallback ?msg, Sleep (1 / 10), Sleep (1 / 20)],
                      loop := Some LEDThemes_null,
                      breakLoopEvent := True, loopChangeEvent := True,
                      hasChangeTimedOut := False\<rparr>"
  have it: "\<And>k. worker_iteration k clk (s, l) = Returned (?s', l)"
    using assms f
    by (simp add: worker_iteration_def setLoop_def errorCallback_def time_sleep_def Let_def
        LEDThemes_null_def)
  have er: "error_reports (trace ?s') = error_reports (trace s) @ [?msg]"
    using f by (simp add: error_reports_def)
  have ru: "isRunning ?s' = isRunning s"
    using f by simp
  have un: "isRunning s \<Longrightarrow> worker_loop (Suc n) clk (s, l) = worker_loop n clk (?s', l)"
    using it by simp
  have k1: "isRunning s \<Longrightarrow> \<exists>y. worker_loop (Suc n) clk (s, l) = OutOfFuel y"
    using worker_loop_keeps_running [of "(s, l)" "Suc n" clk] by simp
  have k2: "isRunning s \<Longrightarrow> \<forall>m. \<exists>y. worker_loop m clk (?s', l) = OutOfFuel y"
    using worker_loop_keeps_running [of "(?s', l)" _ clk] ru by simp
  from it er ru un k1 k2 show ?thesis unfolding Let_def by blast
qed

theorem init_fault_falls_back_to_null_witness:
  "worker_iteration 0 half_second_clock (LEDService_init\<lparr>loop := Some bad_init\<rparr>, 0) =
     Returned (LEDService_init
       \<lparr>breakLoopEvent := True, loopChangeEvent := True,
        trace := [ThemeCall ''bad_init'' ''passApp'', ThemeCall ''bad_init'' ''passArgs'',
                  ThemeCall ''bad_init'' ''runInit'',
                  ErrorCallback ''Failed to initialize loop bad_init: ValueError'',
                  Sleep (1 / 10), Sleep (1 / 20)]\<rparr>, 0)
   \<and> worker_loop 2 half_second_clock (LEDService_init\<lparr>loop := Some bad_init\<rparr>, 0) =
     OutOfFuel (LEDService_init
       \<lparr>breakLoopEvent := True, loopChangeEvent := True,
        trace := [ThemeCall ''bad_init'' ''passApp'', ThemeCall ''bad_init'' ''passArgs'',
                  ThemeCall ''bad_init'' ''runInit'',
                  ErrorCallback ''Failed to initialize loop bad_init: ValueError'',
                  Sleep (1 / 10), Sleep (1 / 20), Sleep (1 / 100)]\<rparr>, 0)"
proof -
  let ?s = "LEDService_init\<lparr>loop := Some bad_init\<rparr>"
  let ?s1 = "?s\<lparr>trace := [ThemeCall ''bad_init'' ''passApp'', ThemeCall ''bad_init'' ''passArgs'',
                  ThemeCall ''bad_init'' ''runInit'']\<rparr>"
  have h1: "loop ?s = Some bad_init" by simp
  have h2: "theme_id bad_init \<noteq> ''null''" by (simp add: bad_init_def)
  have h3: "\<not> isChangingLoop ?s" by (simp add: LEDService_init_def)
  have h4: "try_init bad_init ?s = (Some ''ValueError'', ?s1)"
    by (simp add: try_init_def theme_call_def bad_init_def rainbow_def LEDService_init_def)
  have e: "worker_loop 2 half_second_clock (?s, 0) =
     OutOfFuel (LEDService_init
       \<lparr>breakLoopEvent := True, loopChangeEvent := True,
        trace := [ThemeCall ''bad_init'' ''passApp'', ThemeCall ''bad_init'' ''passArgs'',
                  ThemeCall ''bad_init'' ''runInit'',
                  ErrorCallback ''Failed to initialize loop bad_init: ValueError'',
                  Sleep (1 / 10), Sleep (1 / 20), Sleep (1 / 100)]\<rparr>, 0)"
    by (simp add: numeral_2_eq_2 worker_iteration_def try_init_def theme_call_def
        errorCallback_def time_sleep_def setLoop_def
        bad_init_def rainbow_def LEDService_init_def LEDThemes_null_def Let_def)
  from init_fault_falls_back_to_null [OF h1 h2 h3 h4, of 0 half_second_clock 0]
  have "worker_iteration 0 half_second_clock (?s, 0) =
     Returned (LEDService_init
       \<lparr>breakLoopEvent := True, loopChangeEvent := True,
        trace := [ThemeCall ''bad_init'' ''passApp'', ThemeCall ''bad_init'' ''passArgs'',
                  ThemeCall ''bad_init'' ''runInit'',
                  ErrorCallback ''Failed to initialize loop bad_init: ValueError'',
                  Sleep (1 / 10), Sleep (1 / 20)]\<rparr>, 0)"
    by (simp add: Let_def LEDService_init_def bad_init_def)
  with e show ?thesis by blast
qed

text \<open>
  C1. Take an episode of the worker: the current theme is not the null theme, no switch is
  in progress, its initialisation returned, and \<open>k\<close> frames have gone by without a
  \<^verbatim>\<open>break\<close>. If the frame loop goes on and the theme's \<^verbatim>\<open>runLoop\<close> now raises, the pass
  through the worker's loop returns normally: the traceback has been handed to the error
  callback once, the frame loop has been left, both events are clear again and
  \<^verbatim>\<open>_isRunning\<close> still holds, so the worker goes on with its next pass from that state.
  Nothing escapes from the worker, and the worker keeps running: after any number of
  further passes its loop has neither returned nor let an exception escape.
\<close>

theorem step_fault_contained:
  assumes "loop s0 = Some T0" and "theme_id T0 \<noteq> ''null''" and "\<not> isChangingLoop s0"
    and "try_init T0 s0 = (None, sa)"
    and "after_frames k clk (sa, l0) = Some (s, l)"
    and "frame_loop_cond s" and "loop s = Some T"
    and "runLoop T (frames s) (leds s) = (StepRaises tb, p)"
  shows "(let s' = s\<lparr>leds := p, ticks := Suc (ticks s), frames := Suc (frames s),
                     trace := trace s @ [ThemeCall (theme_id T) ''runLoop'', ErrorCallback tb]\<rparr>
          in frame clk (s, l) = (True, s'\<lparr>breakLoopEvent := True\<rparr>, l)
             \<and> worker_iteration (k + Suc n) clk (s0, l0) = Returned (s', l)
             \<and> error_reports (trace s') = error_reports (trace s) @ [tb]
             \<and> isRunning s' \<and> \<not> breakLoopEvent s' \<and> \<not> loopChangeEvent s'
             \<and> (isRunning s0 \<longrightarrow>
                  worker_loop (Suc (k + Suc n)) clk (s0, l0) = worker_loop (k + Suc n) clk (s', l))
             \<and> (isRunning s0 \<longrightarrow>
                  (\<exists>y. worker_loop (Suc (k + Suc n)) clk (s0, l0) = OutOfFuel y))
             \<and> (\<forall>m. \<exists>y. worker_loop m clk (s', l) = OutOfFuel y))"
proof -
  let ?S = "s\<lparr>leds := p, ticks := Suc (ticks s), frames := Suc (frames s),
                 trace := trace s @ [ThemeCall (theme_id T) ''runLoop'', ErrorCallback tb]\<rparr>"
  have c: "isRunning s \<and> \<not> breakLoopEvent s \<and> \<not> loopChangeEvent s"
    using assms(6) by (simp add: frame_loop_cond_def)
  have fr: "frame clk (s, l) = (True, ?S\<lparr>breakLoopEvent := True\<rparr>, l)"
    using frame_fault [OF assms(7,8)] by simp
  have "run_frames (k + Suc n) clk (sa, l0) = run_frames (Suc n) clk (s, l)"
    using assms(5) by (rule after_frames_run)
  also have "\<dots> = Returned (?S\<lparr>breakLoopEvent := True\<rparr>, l)"
    using assms(6) fr by simp
  finally have "clear_events (run_frames (k + Suc n) clk (sa, l0)) = Returned (?S, l)"
    using c by (simp add: clear_events_def)
  then have it: "worker_iteration (k + Suc n) clk (s0, l0) = Returned (?S, l)"
    using assms(1-4) by (simp add: worker_iteration_def)
  have er: "error_reports (trace ?S) = error_reports (trace s) @ [tb]"
    by (simp add: error_reports_def)
  have un: "isRunning s0 \<Longrightarrow>
      worker_loop (Suc (k + Suc n)) clk (s0, l0) = worker_loop (k + Suc n) clk (?S, l)"
    using it by simp
  have k1: "isRunning s0 \<Longrightarrow> \<exists>y. worker_loop (Suc (k + Suc n)) clk (s0, l0) = OutOfFuel y"
    using worker_loop_keeps_running [of "(s0, l0)" "Suc (k + Suc n)" clk] by simp
  have k2: "\<forall>m. \<exists>y. worker_loop m clk (?S, l) = OutOfFuel y"
    using worker_loop_keeps_running [of "(?S, l)" _ clk] c by simp
  have c': "isRunning ?S \<and> \<not> breakLoopEvent ?S \<and> \<not> loopChangeEvent ?S"
    using c by simp
  from fr it er c' un k1 k2 show ?thesis unfolding Let_def by blast
qed

theorem step_fault_contained_witness:
  "worker_iteration (Suc 0) half_second_clock (LEDService_init\<lparr>loop := Some bad_step\<rparr>, 0) =
     Returned (LEDService_init
       \<lparr>loop := Some bad_step, ticks := 1, frames := 1,
        trace := [ThemeCall ''bad_step'' ''passApp'', ThemeCall ''bad_step'' ''passArgs'',
                  ThemeCall ''bad_step'' ''runInit'', ThemeCall ''bad_step'' ''runLoop'',
                  ErrorCallback ''ValueError'']\<rparr>, 0)
   \<and> worker_loop 2 half_second_clock (LEDService_init\<lparr>loop := Some bad_step\<rparr>, 0) =
     OutOfFuel (LEDService_init
       \<lparr>loop := Some bad_step, ticks := 1, frames := 1,
        trace := [ThemeCall ''bad_step'' ''passApp'', ThemeCall ''bad_step'' ''passArgs'',
                  ThemeCall ''bad_step'' ''runInit'', ThemeCall ''bad_step'' ''runLoop'',
                  ErrorCallback ''ValueError'',
                  ThemeCall ''bad_step'' ''passApp'', ThemeCall ''bad_step'' ''passArgs'',
                  ThemeCall ''bad_step'' ''runInit'']\<rparr>, 0)"
proof -
  let ?s0 = "LEDService_init\<lparr>loop := Some bad_step\<rparr>"
  let ?sa = "?s0\<lparr>trace := [ThemeCall ''bad_step'' ''passApp'', ThemeCall ''bad_step'' ''passArgs'',
                  ThemeCall ''bad_step'' ''runInit'']\<rparr>"
  have h1: "loop ?s0 = Some bad_step" by simp
  have h2: "theme_id bad_step \<noteq> ''null''" by (simp add: bad_step_def)
  have h3: "\<not> isChangingLoop ?s0" by (simp add: LEDService_init_def)
  have h4: "try_init bad_step ?s0 = (None, ?sa)"
    by (simp add: try_init_def theme_call_def bad_step_def rainbow_def LEDService_init_def)
  have h5: "after_frames 0 half_second_clock (?sa, 0) = Some (?sa, 0)" by simp
  have h6: "frame_loop_cond ?sa" by (simp add: frame_loop_cond_def LEDService_init_def)
  have h7: "loop ?sa = Some bad_step" by simp
  have h8: "runLoop bad_step (frames ?sa) (leds ?sa) = (StepRaises ''ValueError'', leds ?sa)"
    by (simp add: bad_step_def)
  have e: "worker_loop 2 half_second_clock (?s0, 0) =
     OutOfFuel (LEDService_init
       \<lparr>loop := Some bad_step, ticks := 1, frames := 1,
        trace := [ThemeCall ''bad_step'' ''passApp'', ThemeCall ''bad_step'' ''passArgs'',
                  ThemeCall ''bad_step'' ''runInit'', ThemeCall ''bad_step'' ''runLoop'',
                  ErrorCallback ''ValueError'',
                  ThemeCall ''bad_step'' ''passApp'', ThemeCall ''bad_step'' ''passArgs'',
                  ThemeCall ''bad_step'' ''runInit'']\<rparr>, 0)"
    by (simp add: numeral_2_eq_2 worker_iteration_def try_init_def theme_call_def frame_def
        time_time_def call_runLoop_def errorCallback_def clear_events_def frame_loop_cond_def
        bad_step_def rainbow_def LEDService_init_def Let_def)
  from step_fault_contained [OF h1 h2 h3 h4 h5 h6 h7 h8, of 0]
  have "worker_iteration (Suc 0) half_second_clock (?s0, 0) =
     Returned (LEDService_init
       \<lparr>loop := Some bad_step, ticks := 1, frames := 1,
        trace := [ThemeCall ''bad_step'' ''passApp'', ThemeCall ''bad_step'' ''passArgs'',
                  ThemeCall ''bad_step'' ''runInit'', ThemeCall ''bad_step'' ''runLoop'',
                  ErrorCallback ''ValueError'']\<rparr>, 0)"
    by (simp add: Let_def LEDService_init_def bad_step_def)
  with e show ?thesis by blast
qed

section \<open>Frame pacing\<close>

text \<open>
  C7, as the code has it. A pass through the frame loop reads the clock, calls the theme's
  \<^verbatim>\<open>runLoop\<close> and, when that returns \<^verbatim>\<open>None\<close>, reads the clock again for the elapsed time;
  with the target period of 1/60 s it then sleeps \<open>max 0 (target - elapsed)\<close> when that is
  positive and makes no such call otherwise. After that it reads the clock once more and,
  when more than 16 ms have gone by since the last yield, sleeps one further millisecond
  to yield to other threads. These are all the sleeps of the pass, in this order, after
  the call of the theme. So with a clock that does not run backwards, a frame that
  overran its period is followed by exactly the 1 ms yield. A pass whose \<^verbatim>\<open>runLoop\<close>
  returns a value or raises ends in \<^verbatim>\<open>break\<close> and sleeps not at all.
\<close>

theorem frame_pacing:
  assumes "loop s = Some T"
  shows "(let frame_elapsed = clk (Suc (ticks s)) - clk (ticks s);
              recorded = (if PERFORMANCE_MONITORING s \<and> performance_monitor s \<noteq> None then 1 else 0);
              t3 = clk (ticks s + 2 + recorded);
              sleep_time = max 0 (frame_time_target - frame_elapsed)
          in (fst (runLoop T (frames s) (leds s)) = StatNone \<longrightarrow>
                \<not> fst (frame clk (s, l))
                \<and> frame_sleeps clk (s, l) =
                    (if 0 < sleep_time then [sleep_time] else []) @
                    (if 16 / 1000 < t3 - l then [1 / 1000] else [])
                \<and> trace (fst (snd (frame clk (s, l)))) =
                    trace s @ ThemeCall (theme_id T) ''runLoop'' # map Sleep (frame_sleeps clk (s, l)))
           \<and> (fst (runLoop T (frames s) (leds s)) = StatNone \<and> frame_time_target \<le> frame_elapsed
                \<and> l \<le> clk (ticks s) \<and> clk (Suc (ticks s)) \<le> t3 \<longrightarrow>
                frame_sleeps clk (s, l) = [1 / 1000])
           \<and> (fst (runLoop T (frames s) (leds s)) \<noteq> StatNone \<longrightarrow>
                fst (frame clk (s, l)) \<and> frame_sleeps clk (s, l) = []))"
proof -
  obtain r p where rp: "runLoop T (frames s) (leds s) = (r, p)"
    by (cases "runLoop T (frames s) (leds s)")
  show ?thesis
  proof (cases r)
    case StatNone
    note fc = frame_continue [OF assms rp [unfolded StatNone], of clk l]
    have tr: "trace (fst (snd (frame clk (s, l)))) =
        trace s @ ThemeCall (theme_id T) ''runLoop'' #
          map Sleep
           ((if clk (Suc (ticks s)) - clk (ticks s) < frame_time_target
             then [frame_time_target - (clk (Suc (ticks s)) - clk (ticks s))] else []) @
            (if 16 / 1000 < clk (ticks s + 2 +
                    (if PERFORMANCE_MONITORING s \<and> performance_monitor s \<noteq> None then 1 else 0)) - l
             then [1 / 1000] else []))"
      using fc by blast
    have sl: "frame_sleeps clk (s, l) =
           (if clk (Suc (ticks s)) - clk (ticks s) < frame_time_target
             then [frame_time_target - (clk (Suc (ticks s)) - clk (ticks s))] else []) @
            (if 16 / 1000 < clk (ticks s + 2 +
                    (if PERFORMANCE_MONITORING s \<and> performance_monitor s \<noteq> None then 1 else 0)) - l
             then [1 / 1000] else [])"
      unfolding frame_sleeps_def
      by (simp add: tr sleeps_of_def)
    have nb: "\<not> fst (frame clk (s, l))" using fc by blast
    show ?thesis
      unfolding Let_def
      using rp StatNone nb tr sl
      by (auto simp: max_def frame_time_target_def)
  next
    case StatValue
    show ?thesis
      unfolding Let_def
      using rp StatValue frame_stop [OF assms rp [unfolded StatValue], of clk l]
      by (simp add: frame_sleeps_def sleeps_of_def)
  next
    case (StepRaises tb)
    show ?thesis
      unfolding Let_def
      using rp StepRaises frame_fault [OF assms rp [unfolded StepRaises], of clk l]
      by (simp add: frame_sleeps_def sleeps_of_def)
  qed
qed

theorem frame_pacing_witness:
  "loop (LEDService_init\<lparr>loop := Some rainbow\<rparr>) = Some rainbow
   \<and> frame_sleeps (\<lambda>k. of_nat k / 240) (LEDService_init\<lparr>loop := Some rainbow\<rparr>, 0) = [1 / 80]
   \<and> frame_sleeps (\<lambda>k. of_nat k / 240) (LEDService_init\<lparr>loop := Some bad_step\<rparr>, 0) = []"
proof -
  have h: "loop (LEDService_init\<lparr>loop := Some rainbow\<rparr>) = Some rainbow" by simp
  have h': "loop (LEDService_init\<lparr>loop := Some bad_step\<rparr>) = Some bad_step" by simp
  from frame_pacing [OF h, of "\<lambda>k. of_nat k / 240" 0]
  have a: "frame_sleeps (\<lambda>k. of_nat k / 240) (LEDService_init\<lparr>loop := Some rainbow\<rparr>, 0) = [1 / 80]"
    by (simp add: Let_def LEDService_init_def rainbow_def frame_time_target_def)
  from frame_pacing [OF h', of "\<lambda>k. of_nat k / 240" 0]
  have b: "frame_sleeps (\<lambda>k. of_nat k / 240) (LEDService_init\<lparr>loop := Some bad_step\<rparr>, 0) = []"
    by (simp add: Let_def LEDService_init_def bad_step_def)
  from h a b show ?thesis by blast
qed

text \<open>
  As the specification words it the property fails: with a step that takes half a second the elapsed time is
  above the target period, \<open>max 0 (target - elapsed)\<close> is 0, and the worker still sleeps
  one millisecond before the next frame.
\<close>

theorem frame_overrun_sleeps_counterexample:
  "frame_sleeps half_second_clock (LEDService_init\<lparr>loop := Some rainbow\<rparr>, 0) = [1 / 1000]
   \<and> max 0 (frame_time_target - (half_second_clock 1 - half_second_clock 0)) = 0"
  by (simp add: frame_sleeps_def frame_def time_time_def call_runLoop_def theme_call_def
      time_sleep_def module_record_led_frame_def Let_def LEDService_init_def rainbow_def
      half_second_clock_def frame_time_target_def sleeps_of_def)

end
